theory Spec2Isabelle
  imports Main "HOL-Library.AList"
begin

section \<open>Aggregate functions of the SQL backend (cubes/backends/sql/functions.py)\<close>

subsection \<open>Collaborators: SQL expressions, errors, aggregates, browser context\<close>

text \<open>
  The SQL expression builder is an external library. Its expressions are modelled as
  free terms: a column, a literal, a function applied to positional and keyword
  arguments, and a labelled expression (the result of \<open>.label(name)\<close>).
\<close>

datatype sqlexpr =
    Column string
  | Literal int
  | FunctionCall string "sqlexpr list" "(string \<times> sqlexpr) list"
  | Label sqlexpr string

text \<open>
  Modelled from the spec: the error classes of the module \<open>cubes.errors\<close>, which the
  source imports with \<open>from ...errors import *\<close> and which is not part of the sources
  at hand. The source raises \<open>InternalError\<close> and \<open>ModelError\<close> by name; the
  specification's taxonomy names \<open>ConfigurationError\<close>, \<open>ModelError\<close> and a
  lookup error as kinds of their own. \<open>KeyError\<close>, \<open>AttributeError\<close> and
  \<open>TypeError\<close> are the interpreter's: a missing dictionary key, an attribute read on
  \<open>None\<close>, a call with the wrong number of arguments. An error is the class that was
  raised together with its message.
\<close>

datatype error_class =
    InternalError
  | ConfigurationError
  | ModelError
  | KeyError
  | AttributeError
  | TypeError

datatype error = Error error_class string

definition raises :: "error_class \<Rightarrow> error + 'a \<Rightarrow> bool" where
  "raises c r = (case r of Inl (Error c' msg) \<Rightarrow> c' = c | Inr x \<Rightarrow> False)"

text \<open>
  An aggregate exposes \<open>.name\<close>, \<open>.measure\<close> (a measure reference or \<open>None\<close>) and
  the text \<open>str(aggregate)\<close> that the error message interpolates.
\<close>

record aggregate =
  aggregate_name :: string
  aggregate_measure :: "string option"
  aggregate_str :: string

text \<open>
  The browser context resolves a measure reference to a measure
  (\<open>context.cube.measure(ref)\<close>) and a measure to a column (\<open>context.column(measure)\<close>).
  Both are calls into code outside this module and may raise.
\<close>

record 'm browser_context =
  cube_measure :: "string \<Rightarrow> error + 'm"
  column :: "'m \<Rightarrow> error + sqlexpr"

type_synonym sqlfunction = "sqlexpr list \<Rightarrow> (string \<times> sqlexpr) list \<Rightarrow> error + sqlexpr"

text \<open>
  \<open>sql.functions.sum\<close>, \<open>sql.functions.count\<close>, \<open>sql.functions.min\<close>,
  \<open>sql.functions.max\<close> and the three \<open>ReturnTypeFromArgs\<close> subclasses \<open>avg\<close>,
  \<open>stddev\<close>, \<open>variance\<close> build a function expression of that name over their
  arguments.
\<close>

definition sql_function :: "string \<Rightarrow> sqlfunction" where
  "sql_function nm as kw = Inr (FunctionCall nm as kw)"

text \<open>\<open>sql.functions.coalesce(value, 0)\<close>\<close>

definition coalesce :: "sqlexpr \<Rightarrow> int \<Rightarrow> sqlexpr" where
  "coalesce val d = FunctionCall ''coalesce'' [val, Literal d] []"

text \<open>\<open>lambda c: c\<close>: exactly one positional argument, no keyword argument.\<close>

definition identity_lambda :: sqlfunction where
  "identity_lambda as kw =
     (case as of
        [c] \<Rightarrow> (if kw = [] then Inr c else Inl (Error TypeError ''<lambda>()''))
      | _ \<Rightarrow> Inl (Error TypeError ''<lambda>()''))"

subsection \<open>The classes\<close>

datatype function_class =
    AggregateFunction
  | ValueCoalescingFunction
  | SummaryCoalescingFunction
  | GenerativeFunction

record aggregate_function =
  cls :: function_class
  name :: string
  func :: sqlfunction
  args :: "sqlexpr list"
  kwargs :: "(string \<times> sqlexpr) list"

text \<open>
  \<open>AggregateFunction.__init__\<close> stores its four arguments. \<open>GenerativeFunction.__init__\<close>
  calls it with the name and the function only, so the extra arguments it was given are
  not stored.
\<close>

definition AggregateFunction_init ::
  "function_class \<Rightarrow> string \<Rightarrow> sqlfunction \<Rightarrow> sqlexpr list \<Rightarrow> (string \<times> sqlexpr) list
   \<Rightarrow> aggregate_function" where
  "AggregateFunction_init c nm fn as kw =
     \<lparr>cls = c, name = nm, func = fn, args = as, kwargs = kw\<rparr>"

definition new_function ::
  "function_class \<Rightarrow> string \<Rightarrow> sqlfunction \<Rightarrow> sqlexpr list \<Rightarrow> (string \<times> sqlexpr) list
   \<Rightarrow> aggregate_function" where
  "new_function c nm fn as kw =
     (case c of
        GenerativeFunction \<Rightarrow> AggregateFunction_init c nm fn [] []
      | _ \<Rightarrow> AggregateFunction_init c nm fn as kw)"

text \<open>
  The class attribute \<open>requires_measure = True\<close> is declared in \<open>AggregateFunction\<close>
  and no subclass overrides it.
\<close>

definition requires_measure :: "aggregate_function \<Rightarrow> bool" where
  "requires_measure self = True"

definition coalesce_value :: "aggregate_function \<Rightarrow> aggregate \<Rightarrow> sqlexpr \<Rightarrow> sqlexpr" where
  "coalesce_value self a val =
     (case cls self of
        ValueCoalescingFunction \<Rightarrow> coalesce val 0
      | _ \<Rightarrow> val)"

definition coalesce_aggregate :: "aggregate_function \<Rightarrow> aggregate \<Rightarrow> sqlexpr \<Rightarrow> sqlexpr" where
  "coalesce_aggregate self a val =
     (case cls self of
        SummaryCoalescingFunction \<Rightarrow> coalesce val 0
      | _ \<Rightarrow> val)"

text \<open>
  \<open>AggregateFunction.apply\<close>. The checks are in the source's order: the context, then
  the aggregate's measure (reading \<open>.measure\<close> of \<open>None\<close> is an \<open>AttributeError\<close>;
  \<open>None\<close> and the empty string are both false). After the function has been applied
  the source assigns the result of \<open>coalesce_aggregate\<close> to the local \<open>column\<close> and
  returns \<open>expression\<close>; \<open>column2\<close> below is that assignment.
\<close>

definition AggregateFunction_apply ::
  "aggregate_function \<Rightarrow> aggregate option \<Rightarrow> 'm browser_context option \<Rightarrow> bool \<Rightarrow> error + sqlexpr" where
  "AggregateFunction_apply self aggregate context coalesce_flag =
     (case context of
        None \<Rightarrow> Inl (Error InternalError ''No context provided for AggregationFunction'')
      | Some ctx \<Rightarrow>
          (case aggregate of
             None \<Rightarrow> Inl (Error AttributeError ''measure'')
           | Some a \<Rightarrow>
               (case aggregate_measure a of
                  None \<Rightarrow>
                    Inl (Error ModelError
                      (''No measure specified for aggregate '' @ aggregate_str a @
                       '', required for aggregate function '' @ name self))
                | Some ref \<Rightarrow>
                    if ref = [] then
                      Inl (Error ModelError
                        (''No measure specified for aggregate '' @ aggregate_str a @
                         '', required for aggregate function '' @ name self))
                    else
                      (case cube_measure ctx ref of
                         Inl e \<Rightarrow> Inl e
                       | Inr msr \<Rightarrow>
                           (case column ctx msr of
                              Inl e \<Rightarrow> Inl e
                            | Inr column0 \<Rightarrow>
                                let column1 =
                                  (if coalesce_flag then coalesce_value self a column0
                                   else column0)
                                in
                                  (case func self (column1 # args self) (kwargs self) of
                                     Inl e \<Rightarrow> Inl e
                                   | Inr expression \<Rightarrow>
                                       let column2 =
                                         (if coalesce_flag
                                          then coalesce_aggregate self a expression
                                          else column1)
                                       in Inr expression))))))"

text \<open>
  Method dispatch: \<open>GenerativeFunction\<close> overrides \<open>apply\<close> with
  \<open>self.function(*self.args, **self.kwargs)\<close>; the other classes inherit it.
\<close>

definition apply_function ::
  "aggregate_function \<Rightarrow> aggregate option \<Rightarrow> 'm browser_context option \<Rightarrow> bool \<Rightarrow> error + sqlexpr" where
  "apply_function self aggregate context coalesce_flag =
     (case cls self of
        GenerativeFunction \<Rightarrow> func self (args self) (kwargs self)
      | _ \<Rightarrow> AggregateFunction_apply self aggregate context coalesce_flag)"

text \<open>\<open>AggregateFunction.__call__\<close>: apply, then label with the aggregate's name.\<close>

definition call ::
  "aggregate_function \<Rightarrow> aggregate option \<Rightarrow> 'm browser_context option \<Rightarrow> bool \<Rightarrow> error + sqlexpr" where
  "call self aggregate context coalesce_flag =
     (case apply_function self aggregate context coalesce_flag of
        Inl e \<Rightarrow> Inl e
      | Inr expression \<Rightarrow>
          (case aggregate of
             None \<Rightarrow> Inl (Error AttributeError ''name'')
           | Some a \<Rightarrow> Inr (Label expression (aggregate_name a))))"

text \<open>
  The objects a call is given are the function itself, the aggregate and the context.
  \<open>__call__\<close> and \<open>apply\<close> read their attributes and assign to the local variables
  \<open>expression\<close>, \<open>measure\<close> and \<open>column\<close> only; \<open>call_objects\<close> is the call
  with the objects it leaves behind returned next to its result.
\<close>

definition call_objects ::
  "aggregate_function \<times> aggregate option \<times> 'm browser_context option \<Rightarrow> bool
   \<Rightarrow> (error + sqlexpr) \<times> (aggregate_function \<times> aggregate option \<times> 'm browser_context option)" where
  "call_objects objs coalesce_flag =
     (case objs of
        (self, aggregate, context) \<Rightarrow>
          (call self aggregate context coalesce_flag, (self, aggregate, context)))"

subsection \<open>The registry\<close>

text \<open>The module-level tuple \<open>_functions\<close>, in the source's order.\<close>

definition functions_tuple :: "aggregate_function list" where
  "functions_tuple =
     [new_function SummaryCoalescingFunction ''sum'' (sql_function ''sum'') [] [],
      new_function SummaryCoalescingFunction ''count_nonempty'' (sql_function ''count'') [] [],
      new_function ValueCoalescingFunction ''min'' (sql_function ''min'') [] [],
      new_function ValueCoalescingFunction ''max'' (sql_function ''max'') [] [],
      new_function ValueCoalescingFunction ''avg'' (sql_function ''avg'') [] [],
      new_function ValueCoalescingFunction ''stddev'' (sql_function ''stddev'') [] [],
      new_function ValueCoalescingFunction ''variance'' (sql_function ''variance'') [] [],
      new_function ValueCoalescingFunction ''identity'' identity_lambda [] [],
      new_function GenerativeFunction ''count'' (sql_function ''count'') [Literal 1] []]"

text \<open>
  The module-level dictionary \<open>_function_dict\<close>, initially empty, is the state that the
  two public functions thread. \<open>d[k] = v\<close> is \<open>AList.update\<close>.
\<close>

type_synonym function_dict = "(string \<times> aggregate_function) list"

definition create_function_dict :: "function_dict \<Rightarrow> function_dict" where
  "create_function_dict d =
     (if d = []
      then foldl (\<lambda>d' fn. AList.update (name fn) fn d') d functions_tuple
      else d)"

definition get_aggregate_function ::
  "string \<Rightarrow> function_dict \<Rightarrow> (error + aggregate_function) \<times> function_dict" where
  "get_aggregate_function nm d =
     (let d' = create_function_dict d in
      (case map_of d' nm of
         None \<Rightarrow> Inl (Error KeyError nm)
       | Some fn \<Rightarrow> Inr fn,
       d'))"

definition available_aggregate_functions :: "function_dict \<Rightarrow> string list \<times> function_dict" where
  "available_aggregate_functions d =
     (let d' = create_function_dict d in (map fst d', d'))"

text \<open>
  The calls a client can make on the registry, the dictionary each leaves behind, and
  the dictionaries that calls can produce from the empty one the module starts with.
  \<open>_create_function_dict\<close> enters its loop exactly when it finds the dictionary empty;
  \<open>populations\<close> counts the calls of a sequence that find it so.
\<close>

datatype registry_call = Get string | ListAvailable

fun run_call :: "registry_call \<Rightarrow> function_dict \<Rightarrow> function_dict" where
  "run_call (Get nm) d = snd (get_aggregate_function nm d)"
| "run_call ListAvailable d = snd (available_aggregate_functions d)"

fun run_calls :: "registry_call list \<Rightarrow> function_dict \<Rightarrow> function_dict" where
  "run_calls [] d = d"
| "run_calls (c # cs) d = run_calls cs (run_call c d)"


inductive reachable :: "function_dict \<Rightarrow> bool" where
  initial: "reachable []"
| after_call: "reachable d \<Longrightarrow> reachable (run_call c d)"

subsection \<open>Sample collaborators\<close>

text \<open>
  A context over a cube whose measures are their own references and whose columns carry
  the measure's name, an aggregate of the measure \<open>revenue\<close>, and an aggregate with no
  measure.
\<close>

definition example_context :: "string browser_context" where
  "example_context =
     \<lparr>cube_measure = (\<lambda>ref. Inr ref), column = (\<lambda>m. Inr (Column m))\<rparr>"

definition example_aggregate :: aggregate where
  "example_aggregate =
     \<lparr>aggregate_name = ''total_revenue'', aggregate_measure = Some ''revenue'',
      aggregate_str = ''total_revenue''\<rparr>"

definition aggregate_without_measure :: aggregate where
  "aggregate_without_measure =
     \<lparr>aggregate_name = ''record_count'', aggregate_measure = None,
      aggregate_str = ''record_count''\<rparr>"

section \<open>Properties\<close>

subsection \<open>The registered functions\<close>

lemma functions_tuple_nth:
  "functions_tuple ! 0 =
     \<lparr>cls = SummaryCoalescingFunction, name = ''sum'', func = sql_function ''sum'',
      args = [], kwargs = []\<rparr>"
  "functions_tuple ! 2 =
     \<lparr>cls = ValueCoalescingFunction, name = ''min'', func = sql_function ''min'',
      args = [], kwargs = []\<rparr>"
  "functions_tuple ! 7 =
     \<lparr>cls = ValueCoalescingFunction, name = ''identity'', func = identity_lambda,
      args = [], kwargs = []\<rparr>"
  "functions_tuple ! 8 =
     \<lparr>cls = GenerativeFunction, name = ''count'', func = sql_function ''count'',
      args = [], kwargs = []\<rparr>"
  by (simp_all add: functions_tuple_def new_function_def AggregateFunction_init_def)

lemma functions_tuple_mem:
  "functions_tuple ! 0 \<in> set functions_tuple"
  "functions_tuple ! 2 \<in> set functions_tuple"
  "functions_tuple ! 7 \<in> set functions_tuple"
  "functions_tuple ! 8 \<in> set functions_tuple"
  by (simp_all add: functions_tuple_def)

lemma registered_value_coalescing:
  assumes "fn \<in> set functions_tuple"
    and "name fn \<in> {''min'', ''max'', ''avg'', ''stddev'', ''variance'', ''identity''}"
  shows "cls fn = ValueCoalescingFunction \<and> args fn = [] \<and> kwargs fn = []"
  using assms
  by (auto simp: functions_tuple_def new_function_def AggregateFunction_init_def)

lemma registered_sql_function:
  assumes "fn \<in> set functions_tuple" and "name fn \<noteq> ''identity''"
    and "name fn \<noteq> ''count_nonempty''"
  shows "func fn = sql_function (name fn)"
  using assms
  by (auto simp: functions_tuple_def new_function_def AggregateFunction_init_def)

lemma registered_identity:
  assumes "fn \<in> set functions_tuple" and "name fn = ''identity''"
  shows "func fn = identity_lambda"
  using assms
  by (auto simp: functions_tuple_def new_function_def AggregateFunction_init_def)

lemma registered_generative:
  assumes "fn \<in> set functions_tuple"
  shows "(cls fn = GenerativeFunction) = (name fn = ''count'')"
  using assms
  by (auto simp: functions_tuple_def new_function_def AggregateFunction_init_def)

subsection \<open>The inherited apply\<close>

text \<open>
  With a context, a non-empty measure reference and a successful resolution, the
  inherited \<open>apply\<close> is the function applied to the column (coalesced by
  \<open>coalesce_value\<close> when the flag is set) followed by the stored arguments. The result
  of \<open>coalesce_aggregate\<close> does not appear in it.
\<close>

lemma base_apply_resolved:
  assumes "cls fn \<noteq> GenerativeFunction"
    and "aggregate_measure a = Some ref" and "ref \<noteq> []"
    and "cube_measure ctx ref = Inr m" and "column ctx m = Inr col"
  shows "apply_function fn (Some a) (Some ctx) coalesce_flag =
           func fn ((if coalesce_flag then coalesce_value fn a col else col) # args fn)
             (kwargs fn)"
  using assms
  by (cases "cls fn")
     (simp_all add: apply_function_def AggregateFunction_apply_def Let_def split: sum.splits)

lemma generative_apply:
  assumes "cls fn = GenerativeFunction"
  shows "apply_function fn aggregate context coalesce_flag = func fn (args fn) (kwargs fn)"
  using assms by (simp add: apply_function_def)

subsection \<open>Coalescing\<close>

text \<open>
  Claim C1 (the functions registered as \<open>sum\<close> and \<open>count_nonempty\<close>, with the
  coalesce flag set, return the function's result wrapped in \<open>COALESCE(., 0)\<close>).
  The source computes the wrapped expression, stores it in the local \<open>column\<close> and
  returns the unwrapped \<open>expression\<close>: for \<open>sum\<close> over the column of \<open>revenue\<close>
  the result is \<open>SUM(revenue)\<close>, and not \<open>COALESCE(SUM(revenue), 0)\<close>.
\<close>

theorem sum_coalesce_aggregate_discarded:
  "name (functions_tuple ! 0) = ''sum'' \<and>
   cls (functions_tuple ! 0) = SummaryCoalescingFunction \<and>
   apply_function (functions_tuple ! 0) (Some example_aggregate) (Some example_context) True
     = Inr (FunctionCall ''sum'' [Column ''revenue''] []) \<and>
   coalesce_aggregate (functions_tuple ! 0) example_aggregate
       (FunctionCall ''sum'' [Column ''revenue''] [])
     = FunctionCall ''coalesce'' [FunctionCall ''sum'' [Column ''revenue''] [], Literal 0] [] \<and>
   apply_function (functions_tuple ! 0) (Some example_aggregate) (Some example_context) True
     \<noteq> Inr (FunctionCall ''coalesce''
              [FunctionCall ''sum'' [Column ''revenue''] [], Literal 0] [])"
  by (simp add: functions_tuple_nth apply_function_def AggregateFunction_apply_def
      coalesce_value_def coalesce_aggregate_def coalesce_def sql_function_def
      example_aggregate_def example_context_def)

text \<open>
  Claim C2 (the function registered as \<open>count\<close> returns the underlying function
  applied to the literal 1, whatever the aggregate, the context and the flag are).
  The registration passes the literal 1, the constructor of \<open>GenerativeFunction\<close> does
  not hand it on, and \<open>apply\<close> calls the function with no argument: with no
  aggregate and no context the result is \<open>count()\<close>, where the function applied to the
  literal would be \<open>count(1)\<close>.
\<close>

theorem count_literal_argument_dropped:
  "name (functions_tuple ! 8) = ''count'' \<and>
   args (functions_tuple ! 8) = [] \<and>
   apply_function (functions_tuple ! 8) None (None :: string browser_context option) False
     = Inr (FunctionCall ''count'' [] []) \<and>
   func (functions_tuple ! 8) [Literal 1] [] = Inr (FunctionCall ''count'' [Literal 1] []) \<and>
   apply_function (functions_tuple ! 8) None (None :: string browser_context option) False
     \<noteq> func (functions_tuple ! 8) [Literal 1] []"
  by (simp add: functions_tuple_nth apply_function_def sql_function_def)

text \<open>
  Claim C3 as stated (the function registered as \<open>identity\<close> returns the raw column
  whether or not the coalesce flag is set) fails: \<open>identity\<close> is registered as a
  \<open>ValueCoalescingFunction\<close>, and with the flag set the column of \<open>revenue\<close> comes
  back as \<open>COALESCE(revenue, 0)\<close>.
\<close>

theorem identity_coalesces_counterexample:
  "name (functions_tuple ! 7) = ''identity'' \<and>
   aggregate_measure example_aggregate = Some ''revenue'' \<and>
   cube_measure example_context ''revenue'' = Inr ''revenue'' \<and>
   column example_context ''revenue'' = Inr (Column ''revenue'') \<and>
   apply_function (functions_tuple ! 7) (Some example_aggregate) (Some example_context) True
     = Inr (FunctionCall ''coalesce'' [Column ''revenue'', Literal 0] []) \<and>
   apply_function (functions_tuple ! 7) (Some example_aggregate) (Some example_context) True
     \<noteq> func (functions_tuple ! 7) [Column ''revenue''] []"
  by (simp add: functions_tuple_nth apply_function_def AggregateFunction_apply_def
      coalesce_value_def coalesce_aggregate_def coalesce_def identity_lambda_def
      example_aggregate_def example_context_def)

text \<open>
  Claim C3, amended: the function registered as \<open>identity\<close> is a value-coalescing
  one. For every aggregate with a measure and every context that resolves it to a
  column, \<open>apply\<close> returns that column unmodified when the coalesce flag is not set,
  and the column wrapped in \<open>COALESCE(., 0)\<close> when it is set; nothing is wrapped
  around the result afterwards.
\<close>

theorem identity_value_coalescing:
  assumes "fn \<in> set functions_tuple" and "name fn = ''identity''"
    and "aggregate_measure a = Some ref" and "ref \<noteq> []"
    and "cube_measure ctx ref = Inr m" and "column ctx m = Inr col"
  shows "apply_function fn (Some a) (Some ctx) False = Inr col \<and>
         apply_function fn (Some a) (Some ctx) True = Inr (coalesce col 0)"
proof -
  from assms(1,2) have c: "cls fn = ValueCoalescingFunction \<and> args fn = [] \<and> kwargs fn = []"
    by (simp add: registered_value_coalescing)
  from assms(1,2) have f: "func fn = identity_lambda"
    by (rule registered_identity)
  from c have g: "cls fn \<noteq> GenerativeFunction" by simp
  show ?thesis
    by (simp add: base_apply_resolved [OF g assms(3-6)] c f coalesce_value_def
        identity_lambda_def)
qed

theorem identity_value_coalescing_witness:
  "functions_tuple ! 7 \<in> set functions_tuple \<and>
   name (functions_tuple ! 7) = ''identity'' \<and>
   aggregate_measure example_aggregate = Some ''revenue'' \<and>
   ''revenue'' \<noteq> [] \<and>
   cube_measure example_context ''revenue'' = Inr ''revenue'' \<and>
   column example_context ''revenue'' = Inr (Column ''revenue'') \<and>
   apply_function (functions_tuple ! 7) (Some example_aggregate) (Some example_context) False
     = Inr (Column ''revenue'') \<and>
   apply_function (functions_tuple ! 7) (Some example_aggregate) (Some example_context) True
     = Inr (coalesce (Column ''revenue'') 0)"
proof -
  have h1: "functions_tuple ! 7 \<in> set functions_tuple"
    by (rule functions_tuple_mem)
  have h2: "name (functions_tuple ! 7) = ''identity''"
    by (simp add: functions_tuple_nth)
  have h3: "aggregate_measure example_aggregate = Some ''revenue''"
    by (simp add: example_aggregate_def)
  have h4: "''revenue'' \<noteq> []" by simp
  have h5: "cube_measure example_context ''revenue'' = Inr ''revenue''"
    by (simp add: example_context_def)
  have h6: "column example_context ''revenue'' = Inr (Column ''revenue'')"
    by (simp add: example_context_def)
  from identity_value_coalescing [OF h1 h2 h3 h4 h5 h6] h1 h2 h3 h4 h5 h6
  show ?thesis by simp
qed

text \<open>
  Claim C6: for the functions registered as \<open>min\<close>, \<open>max\<close>, \<open>avg\<close>, \<open>stddev\<close>
  and \<open>variance\<close>, an aggregate with a measure and a context that resolves it to a
  column, \<open>apply\<close> with the coalesce flag set is the underlying function applied to
  the column wrapped in \<open>COALESCE(., 0)\<close>, with nothing wrapped around its result;
  with the flag not set it is the underlying function applied to the raw column. The
  underlying function builds the SQL function of the registered name.
\<close>

theorem value_coalescing_wraps_column:
  assumes "fn \<in> set functions_tuple"
    and "name fn \<in> {''min'', ''max'', ''avg'', ''stddev'', ''variance''}"
    and "aggregate_measure a = Some ref" and "ref \<noteq> []"
    and "cube_measure ctx ref = Inr m" and "column ctx m = Inr col"
  shows "apply_function fn (Some a) (Some ctx) True = func fn [coalesce col 0] [] \<and>
         apply_function fn (Some a) (Some ctx) False = func fn [col] [] \<and>
         func fn [coalesce col 0] [] = Inr (FunctionCall (name fn) [coalesce col 0] []) \<and>
         func fn [col] [] = Inr (FunctionCall (name fn) [col] [])"
proof -
  from assms(2) have n:
    "name fn \<in> {''min'', ''max'', ''avg'', ''stddev'', ''variance'', ''identity''}"
    by auto
  from assms(1) n have c: "cls fn = ValueCoalescingFunction \<and> args fn = [] \<and> kwargs fn = []"
    by (rule registered_value_coalescing)
  from assms(2) have "name fn \<noteq> ''identity''" and "name fn \<noteq> ''count_nonempty''"
    by auto
  with assms(1) have f: "func fn = sql_function (name fn)"
    by (simp add: registered_sql_function)
  from c have g: "cls fn \<noteq> GenerativeFunction" by simp
  show ?thesis
    by (simp add: base_apply_resolved [OF g assms(3-6)] c f coalesce_value_def
        sql_function_def)
qed

theorem value_coalescing_wraps_column_witness:
  "functions_tuple ! 2 \<in> set functions_tuple \<and>
   name (functions_tuple ! 2) \<in> {''min'', ''max'', ''avg'', ''stddev'', ''variance''} \<and>
   aggregate_measure example_aggregate = Some ''revenue'' \<and>
   ''revenue'' \<noteq> [] \<and>
   cube_measure example_context ''revenue'' = Inr ''revenue'' \<and>
   column example_context ''revenue'' = Inr (Column ''revenue'') \<and>
   apply_function (functions_tuple ! 2) (Some example_aggregate) (Some example_context) True
     = Inr (FunctionCall ''min''
         [FunctionCall ''coalesce'' [Column ''revenue'', Literal 0] []] []) \<and>
   apply_function (functions_tuple ! 2) (Some example_aggregate) (Some example_context) False
     = Inr (FunctionCall ''min'' [Column ''revenue''] [])"
proof -
  have h1: "functions_tuple ! 2 \<in> set functions_tuple"
    by (rule functions_tuple_mem)
  have h2: "name (functions_tuple ! 2) \<in> {''min'', ''max'', ''avg'', ''stddev'', ''variance''}"
    by (simp add: functions_tuple_nth)
  have h3: "aggregate_measure example_aggregate = Some ''revenue''"
    by (simp add: example_aggregate_def)
  have h4: "''revenue'' \<noteq> []" by simp
  have h5: "cube_measure example_context ''revenue'' = Inr ''revenue''"
    by (simp add: example_context_def)
  have h6: "column example_context ''revenue'' = Inr (Column ''revenue'')"
    by (simp add: example_context_def)
  from value_coalescing_wraps_column [OF h1 h2 h3 h4 h5 h6] h1 h2 h3 h4 h5 h6
  show ?thesis by (simp add: functions_tuple_nth coalesce_def)
qed

subsection \<open>Errors\<close>

text \<open>
  Claim C4 as stated (every function with \<open>requires_measure\<close> set fails with a
  \<open>ConfigurationError\<close> when called without a context) fails twice over. The error
  that the inherited \<open>apply\<close> raises is an \<open>InternalError\<close>; and the function
  registered as \<open>count\<close> inherits \<open>requires_measure = True\<close> as every class does,
  yet its own \<open>apply\<close> reads no context and returns.
\<close>

theorem apply_without_context_counterexample:
  "name (functions_tuple ! 0) = ''sum'' \<and>
   requires_measure (functions_tuple ! 0) \<and>
   apply_function (functions_tuple ! 0) (Some example_aggregate)
       (None :: string browser_context option) False
     = Inl (Error InternalError ''No context provided for AggregationFunction'') \<and>
   \<not> raises ConfigurationError
       (apply_function (functions_tuple ! 0) (Some example_aggregate)
          (None :: string browser_context option) False) \<and>
   name (functions_tuple ! 8) = ''count'' \<and>
   requires_measure (functions_tuple ! 8) \<and>
   apply_function (functions_tuple ! 8) (Some example_aggregate)
       (None :: string browser_context option) False
     = Inr (FunctionCall ''count'' [] [])"
  by (simp add: functions_tuple_nth requires_measure_def raises_def apply_function_def
      AggregateFunction_apply_def sql_function_def)

text \<open>
  Claim C4, amended: for every function that is not a \<open>GenerativeFunction\<close> (of the
  registered ones, all but \<open>count\<close>), \<open>apply\<close> without a context fails with the
  \<open>InternalError\<close> "No context provided for AggregationFunction", for every aggregate
  (present or not, with or without a measure) and either value of the coalesce flag.
\<close>

theorem apply_without_context:
  assumes "cls fn \<noteq> GenerativeFunction"
  shows "apply_function fn aggregate None coalesce_flag =
           Inl (Error InternalError ''No context provided for AggregationFunction'')"
  using assms
  by (cases "cls fn") (simp_all add: apply_function_def AggregateFunction_apply_def)

theorem apply_without_context_witness:
  "cls (functions_tuple ! 0) \<noteq> GenerativeFunction \<and>
   apply_function (functions_tuple ! 0) (Some example_aggregate)
       (None :: string browser_context option) True
     = Inl (Error InternalError ''No context provided for AggregationFunction'')"
proof -
  have h: "cls (functions_tuple ! 0) \<noteq> GenerativeFunction"
    by (simp add: functions_tuple_nth)
  from apply_without_context [OF h] h show ?thesis by simp
qed

text \<open>
  Claim C5: every function that requires a measure fails with a \<open>ModelError\<close> when
  it is applied, with a context, to an aggregate whose measure is absent; the message
  names the aggregate and the function, and the coalesce flag plays no part. The
  functions that require a measure are those that inherit \<open>apply\<close>: every class but
  \<open>GenerativeFunction\<close>, whose own \<open>apply\<close> reads neither aggregate nor context
  (of the registered functions, all but \<open>count\<close>).
\<close>

theorem apply_without_measure:
  assumes "cls fn \<noteq> GenerativeFunction" and "aggregate_measure a = None"
  shows "apply_function fn (Some a) (Some ctx) coalesce_flag =
           Inl (Error ModelError
             (''No measure specified for aggregate '' @ aggregate_str a @
              '', required for aggregate function '' @ name fn))"
  using assms
  by (cases "cls fn") (simp_all add: apply_function_def AggregateFunction_apply_def)

theorem apply_without_measure_witness:
  "cls (functions_tuple ! 0) \<noteq> GenerativeFunction \<and>
   aggregate_measure aggregate_without_measure = None \<and>
   apply_function (functions_tuple ! 0) (Some aggregate_without_measure)
       (Some example_context) True
     = Inl (Error ModelError
         ''No measure specified for aggregate record_count, required for aggregate function sum'')"
proof -
  have h1: "cls (functions_tuple ! 0) \<noteq> GenerativeFunction"
    by (simp add: functions_tuple_nth)
  have h2: "aggregate_measure aggregate_without_measure = None"
    by (simp add: aggregate_without_measure_def)
  from apply_without_measure [OF h1 h2, of example_context True] h1 h2
  show ?thesis by (simp add: functions_tuple_nth aggregate_without_measure_def)
qed

text \<open>
  Claim C10: for every function that requires a measure (every one that is not a
  \<open>GenerativeFunction\<close>), \<open>apply\<close> with neither a context nor a measure raises
  the missing-context error, the \<open>InternalError\<close> of the first check, and not the
  \<open>ModelError\<close> of the second: the context is checked before the measure.
\<close>

theorem context_check_precedes_measure_check:
  assumes "cls fn \<noteq> GenerativeFunction" and "aggregate_measure a = None"
  shows "raises InternalError (apply_function fn (Some a) None coalesce_flag) \<and>
         \<not> raises ModelError (apply_function fn (Some a) None coalesce_flag)"
  using assms
  by (cases "cls fn")
     (simp_all add: apply_function_def AggregateFunction_apply_def raises_def)

theorem context_check_precedes_measure_check_witness:
  "cls (functions_tuple ! 7) \<noteq> GenerativeFunction \<and>
   aggregate_measure aggregate_without_measure = None \<and>
   raises InternalError
     (apply_function (functions_tuple ! 7) (Some aggregate_without_measure)
        (None :: string browser_context option) False) \<and>
   \<not> raises ModelError
     (apply_function (functions_tuple ! 7) (Some aggregate_without_measure)
        (None :: string browser_context option) False)"
proof -
  have h1: "cls (functions_tuple ! 7) \<noteq> GenerativeFunction"
    by (simp add: functions_tuple_nth)
  have h2: "aggregate_measure aggregate_without_measure = None"
    by (simp add: aggregate_without_measure_def)
  from context_check_precedes_measure_check [OF h1 h2] h1 h2
  show ?thesis by simp
qed

subsection \<open>The labelled call\<close>

text \<open>
  Claim C7 as stated (whenever \<open>apply\<close> succeeds, \<open>__call__\<close> returns its result
  labelled with the aggregate's name) fails when there is no aggregate: the \<open>apply\<close>
  of the function registered as \<open>count\<close> does not read the aggregate and succeeds,
  and \<open>__call__\<close> then reads the name of \<open>None\<close> and raises an
  \<open>AttributeError\<close>.
\<close>

theorem call_without_aggregate_counterexample:
  "name (functions_tuple ! 8) = ''count'' \<and>
   apply_function (functions_tuple ! 8) None (Some example_context) False
     = Inr (FunctionCall ''count'' [] []) \<and>
   call (functions_tuple ! 8) None (Some example_context) False
     = Inl (Error AttributeError ''name'') \<and>
   \<not> raises AttributeError
       (apply_function (functions_tuple ! 8) None (Some example_context) False) \<and>
   raises AttributeError (call (functions_tuple ! 8) None (Some example_context) False)"
  by (simp add: functions_tuple_nth apply_function_def call_def sql_function_def raises_def)

text \<open>
  Claim C7, amended: for every function, every aggregate that is an object, every
  context and either value of the flag, whenever \<open>apply\<close> returns an expression,
  \<open>__call__\<close> returns exactly that expression labelled with the aggregate's name,
  and the function, the aggregate and the context are after the call what they were
  before it.
\<close>

theorem call_labels_apply_result:
  assumes "apply_function fn (Some a) context coalesce_flag = Inr expression"
  shows "call fn (Some a) context coalesce_flag = Inr (Label expression (aggregate_name a)) \<and>
         call_objects (fn, Some a, context) coalesce_flag =
           (Inr (Label expression (aggregate_name a)), (fn, Some a, context))"
  using assms by (simp add: call_def call_objects_def)

theorem call_labels_apply_result_witness:
  "apply_function (functions_tuple ! 8) (Some example_aggregate) (Some example_context) False
     = Inr (FunctionCall ''count'' [] []) \<and>
   call (functions_tuple ! 8) (Some example_aggregate) (Some example_context) False
     = Inr (Label (FunctionCall ''count'' [] []) ''total_revenue'') \<and>
   call_objects (functions_tuple ! 8, Some example_aggregate, Some example_context) False
     = (Inr (Label (FunctionCall ''count'' [] []) ''total_revenue''),
        (functions_tuple ! 8, Some example_aggregate, Some example_context))"
proof -
  have h: "apply_function (functions_tuple ! 8) (Some example_aggregate)
             (Some example_context) False = Inr (FunctionCall ''count'' [] [])"
    by (simp add: functions_tuple_nth apply_function_def sql_function_def)
  from call_labels_apply_result [OF h] h show ?thesis
    by (simp add: example_aggregate_def)
qed

subsection \<open>The registry\<close>

lemma create_function_dict_empty:
  "create_function_dict [] = map (\<lambda>fn. (name fn, fn)) functions_tuple"
  by (simp add: create_function_dict_def functions_tuple_def new_function_def
      AggregateFunction_init_def)

lemma create_function_dict_nonempty: "d \<noteq> [] \<Longrightarrow> create_function_dict d = d"
  by (simp add: create_function_dict_def)

lemma create_function_dict_not_Nil: "create_function_dict [] \<noteq> []"
  by (simp add: create_function_dict_empty functions_tuple_def)

lemma create_function_dict_idem:
  "create_function_dict (create_function_dict d) = create_function_dict d"
  by (cases "d = []") (simp_all add: create_function_dict_nonempty create_function_dict_not_Nil)

lemma run_call_eq: "run_call c d = create_function_dict d"
  by (cases c) (simp_all add: get_aggregate_function_def available_aggregate_functions_def Let_def)






lemma reachable_cases: "reachable d \<Longrightarrow> d = [] \<or> d = create_function_dict []"
proof (induction rule: reachable.induct)
  case initial
  then show ?case by simp
next
  case (after_call d c)
  then show ?case
    by (auto simp: run_call_eq create_function_dict_idem)
qed

lemma reachable_create: "reachable d \<Longrightarrow> create_function_dict d = create_function_dict []"
  by (auto dest: reachable_cases simp: create_function_dict_idem)

lemma reachable_run_calls: "reachable d \<Longrightarrow> reachable (run_calls cs d)"
  by (induction cs arbitrary: d) (simp_all add: reachable.after_call)

lemma keys_registry:
  "map fst (create_function_dict []) =
     [''sum'', ''count_nonempty'', ''min'', ''max'', ''avg'', ''stddev'', ''variance'',
      ''identity'', ''count'']"
  by (simp add: create_function_dict_empty functions_tuple_def new_function_def
      AggregateFunction_init_def)

lemma map_of_registry_Some:
  assumes "map_of (create_function_dict []) nm = Some fn"
  shows "name fn = nm \<and> fn \<in> set functions_tuple"
proof -
  from assms have "(nm, fn) \<in> set (map (\<lambda>fn. (name fn, fn)) functions_tuple)"
    unfolding create_function_dict_empty by (rule map_of_SomeD)
  then show ?thesis by auto
qed

lemma map_of_registry_None:
  "(map_of (create_function_dict []) nm = None) =
     (nm \<notin> set (map fst (create_function_dict [])))"
  by (simp add: map_of_eq_None_iff)

text \<open>
  Claim C8: in every state of the registry that calls can produce, starting from the
  empty dictionary, \<open>get_aggregate_function\<close> on one of the nine built-in names returns
  a function of that name, on any other name it fails with a \<open>KeyError\<close> for that
  name, and \<open>available_aggregate_functions\<close> returns exactly the nine names.
\<close>

theorem registry_lookup:
  assumes "reachable d"
  shows "(nm \<in> {''sum'', ''count_nonempty'', ''min'', ''max'', ''avg'', ''stddev'',
                 ''variance'', ''identity'', ''count''} \<longrightarrow>
            (\<exists>fn. fst (get_aggregate_function nm d) = Inr fn \<and> name fn = nm)) \<and>
         (nm \<notin> {''sum'', ''count_nonempty'', ''min'', ''max'', ''avg'', ''stddev'',
                 ''variance'', ''identity'', ''count''} \<longrightarrow>
            fst (get_aggregate_function nm d) = Inl (Error KeyError nm)) \<and>
         set (fst (available_aggregate_functions d)) =
           {''sum'', ''count_nonempty'', ''min'', ''max'', ''avg'', ''stddev'',
            ''variance'', ''identity'', ''count''}"
proof -
  let ?names = "{''sum'', ''count_nonempty'', ''min'', ''max'', ''avg'', ''stddev'',
                 ''variance'', ''identity'', ''count''}"
  have c: "create_function_dict d = create_function_dict []"
    using assms by (rule reachable_create)
  have g: "fst (get_aggregate_function nm d) =
             (case map_of (create_function_dict []) nm of
                None \<Rightarrow> Inl (Error KeyError nm) | Some fn \<Rightarrow> Inr fn)"
    by (simp add: get_aggregate_function_def Let_def c)
  have a: "fst (available_aggregate_functions d) = map fst (create_function_dict [])"
    by (simp add: available_aggregate_functions_def Let_def c)
  have k: "set (map fst (create_function_dict [])) = ?names"
    unfolding keys_registry by simp
  have known: "\<exists>fn. fst (get_aggregate_function nm d) = Inr fn \<and> name fn = nm"
    if "nm \<in> ?names"
  proof -
    from that k have "map_of (create_function_dict []) nm \<noteq> None"
      unfolding map_of_registry_None by simp
    then obtain fn where s: "map_of (create_function_dict []) nm = Some fn"
      by blast
    from map_of_registry_Some [OF s] s show ?thesis
      by (simp add: g)
  qed
  have unknown: "fst (get_aggregate_function nm d) = Inl (Error KeyError nm)"
    if "nm \<notin> ?names"
  proof -
    from that k have "map_of (create_function_dict []) nm = None"
      unfolding map_of_registry_None by simp
    then show ?thesis by (simp add: g)
  qed
  from known unknown k show ?thesis
    unfolding a by blast
qed

theorem registry_lookup_witness:
  "reachable [] \<and>
   (\<exists>fn. fst (get_aggregate_function ''sum'' []) = Inr fn \<and> name fn = ''sum'') \<and>
   fst (get_aggregate_function ''median'' []) = Inl (Error KeyError ''median'') \<and>
   set (fst (available_aggregate_functions [])) =
     {''sum'', ''count_nonempty'', ''min'', ''max'', ''avg'', ''stddev'',
      ''variance'', ''identity'', ''count''}"
proof -
  have h: "reachable []" by (rule reachable.initial)
  from registry_lookup [OF h, of "''sum''"] registry_lookup [OF h, of "''median''"] h
  show ?thesis by simp
qed



end
